theory Spec2Isabelle
  imports Main
begin

section \<open>Data model of \<open>app.py\<close>\<close>

text \<open>
  A Python \<open>str\<close> is a sequence of Unicode code points, so text is a list of code points.
  \<open>lit\<close> reads an ASCII (or Latin-1) literal as such a sequence; the code points of the
  source's literals beyond ASCII are written out as numbers: U+00B0 (degree sign),
  U+00D7 (multiplication sign), U+00B3 (superscript three), U+2070 (superscript zero).
\<close>

type_synonym pystr = "nat list"

definition lit :: "string \<Rightarrow> pystr" where
  "lit cs = map of_char cs"

text \<open>
  The values of the dictionaries handed to \<open>jsonify\<close>: text, or an integer (\<open>moons\<close>).
  A dictionary literal is the association list of its items in source order.
\<close>

datatype jvalue = JStr pystr | JInt int

type_synonym fields = "(pystr \<times> jvalue) list"

text \<open>\<open>d.get(k, default)\<close>: the value stored under \<open>k\<close>, the default when there is none.\<close>

definition dict_get :: "('k \<times> 'v) list \<Rightarrow> 'k \<Rightarrow> 'v \<Rightarrow> 'v" where
  "dict_get d k dflt = (case map_of d k of None \<Rightarrow> dflt | Some v \<Rightarrow> v)"

text \<open>
  \<open>jsonify(d)\<close> answers with status 200 and the JSON object of \<open>d\<close>; the body is kept as
  the dictionary itself.
\<close>

record response =
  status :: nat
  body :: fields

definition jsonify :: "fields \<Rightarrow> response" where
  "jsonify d = \<lparr>status = 200, body = d\<rparr>"

section \<open>\<open>str.lower\<close>\<close>

text \<open>
  \<open>planet_name.lower()\<close> is Python's own: on an ASCII code point it maps \<open>A\<close>..\<open>Z\<close> to
  \<open>a\<close>..\<open>z\<close> and leaves every other one alone. Beyond ASCII it follows the Unicode
  tables of the interpreter, which are no part of this program: they are the parameter
  \<open>U\<close>, where \<open>U s i\<close> is the lowercase expansion (one to three code points) of the
  non-ASCII code point at index \<open>i\<close> of \<open>s\<close> (the string is passed along because the
  expansion of U+03A3 depends on its neighbours).
\<close>

type_synonym unitable = "pystr \<Rightarrow> nat \<Rightarrow> pystr"

definition ascii_lower :: "nat \<Rightarrow> nat" where
  "ascii_lower c = (if 65 \<le> c \<and> c \<le> 90 then c + 32 else c)"

definition lower_at :: "unitable \<Rightarrow> pystr \<Rightarrow> nat \<Rightarrow> pystr" where
  "lower_at U s i = (if s ! i < 128 then [ascii_lower (s ! i)] else U s i)"

definition lower :: "unitable \<Rightarrow> pystr \<Rightarrow> pystr" where
  "lower U s = concat (map (lower_at U s) [0..<length s])"

section \<open>The handlers\<close>

text \<open>The dictionary literal bound to the local \<open>planets\<close> of \<open>planet_info\<close>.\<close>

definition planets :: "(pystr \<times> fields) list" where
  "planets = [
    (lit ''mercury'', [
      (lit ''name'', JStr (lit ''Mercury'')),
      (lit ''diameter'', JStr (lit ''4,879 km'')),
      (lit ''distance_from_sun'', JStr (lit ''57.9 million km'')),
      (lit ''orbital_period'', JStr (lit ''88 Earth days'')),
      (lit ''day_length'', JStr (lit ''59 Earth days'')),
      (lit ''temperature'', JStr (lit ''-180'' @ [0xB0] @ lit ''C to 430'' @ [0xB0] @ lit ''C'')),
      (lit ''moons'', JInt 0),
      (lit ''description'', JStr (lit
        ''Mercury is the smallest planet in our solar system and closest to the Sun.''))]),
    (lit ''venus'', [
      (lit ''name'', JStr (lit ''Venus'')),
      (lit ''diameter'', JStr (lit ''12,104 km'')),
      (lit ''distance_from_sun'', JStr (lit ''108.2 million km'')),
      (lit ''orbital_period'', JStr (lit ''225 Earth days'')),
      (lit ''day_length'', JStr (lit ''243 Earth days'')),
      (lit ''temperature'', JStr (lit ''465'' @ [0xB0] @ lit ''C (average)'')),
      (lit ''moons'', JInt 0),
      (lit ''description'', JStr (lit
        ''Venus is the hottest planet in our solar system due to its thick atmosphere.''))]),
    (lit ''earth'', [
      (lit ''name'', JStr (lit ''Earth'')),
      (lit ''diameter'', JStr (lit ''12,742 km'')),
      (lit ''distance_from_sun'', JStr (lit ''149.6 million km'')),
      (lit ''orbital_period'', JStr (lit ''365.25 days'')),
      (lit ''day_length'', JStr (lit ''24 hours'')),
      (lit ''temperature'', JStr (lit ''15'' @ [0xB0] @ lit ''C (average)'')),
      (lit ''moons'', JInt 1),
      (lit ''description'', JStr (lit
        ''Earth is the only planet known to support life.''))]),
    (lit ''mars'', [
      (lit ''name'', JStr (lit ''Mars'')),
      (lit ''diameter'', JStr (lit ''6,779 km'')),
      (lit ''distance_from_sun'', JStr (lit ''227.9 million km'')),
      (lit ''orbital_period'', JStr (lit ''687 Earth days'')),
      (lit ''day_length'', JStr (lit ''24.6 hours'')),
      (lit ''temperature'', JStr (lit ''-65'' @ [0xB0] @ lit ''C (average)'')),
      (lit ''moons'', JInt 2),
      (lit ''description'', JStr (lit
        ''Mars is known as the Red Planet due to iron oxide on its surface.''))]),
    (lit ''jupiter'', [
      (lit ''name'', JStr (lit ''Jupiter'')),
      (lit ''diameter'', JStr (lit ''139,820 km'')),
      (lit ''distance_from_sun'', JStr (lit ''778.5 million km'')),
      (lit ''orbital_period'', JStr (lit ''11.86 Earth years'')),
      (lit ''day_length'', JStr (lit ''9.93 hours'')),
      (lit ''temperature'', JStr (lit ''-110'' @ [0xB0] @ lit ''C (cloud top)'')),
      (lit ''moons'', JInt 95),
      (lit ''description'', JStr (lit
        ''Jupiter is the largest planet in our solar system with the famous Great Red Spot.''))]),
    (lit ''saturn'', [
      (lit ''name'', JStr (lit ''Saturn'')),
      (lit ''diameter'', JStr (lit ''116,460 km'')),
      (lit ''distance_from_sun'', JStr (lit ''1.4 billion km'')),
      (lit ''orbital_period'', JStr (lit ''29.46 Earth years'')),
      (lit ''day_length'', JStr (lit ''10.7 hours'')),
      (lit ''temperature'', JStr (lit ''-140'' @ [0xB0] @ lit ''C (cloud top)'')),
      (lit ''moons'', JInt 146),
      (lit ''description'', JStr (lit
        ''Saturn is famous for its stunning ring system made of ice and rock.''))]),
    (lit ''uranus'', [
      (lit ''name'', JStr (lit ''Uranus'')),
      (lit ''diameter'', JStr (lit ''50,724 km'')),
      (lit ''distance_from_sun'', JStr (lit ''2.9 billion km'')),
      (lit ''orbital_period'', JStr (lit ''84 Earth years'')),
      (lit ''day_length'', JStr (lit ''17.2 hours'')),
      (lit ''temperature'', JStr (lit ''-195'' @ [0xB0] @ lit ''C (cloud top)'')),
      (lit ''moons'', JInt 28),
      (lit ''description'', JStr (lit
        ''Uranus rotates on its side, possibly due to a collision with an Earth-sized object.''))]),
    (lit ''neptune'', [
      (lit ''name'', JStr (lit ''Neptune'')),
      (lit ''diameter'', JStr (lit ''49,244 km'')),
      (lit ''distance_from_sun'', JStr (lit ''4.5 billion km'')),
      (lit ''orbital_period'', JStr (lit ''164.8 Earth years'')),
      (lit ''day_length'', JStr (lit ''16.1 hours'')),
      (lit ''temperature'', JStr (lit ''-200'' @ [0xB0] @ lit ''C (cloud top)'')),
      (lit ''moons'', JInt 16),
      (lit ''description'', JStr (lit
        ''Neptune has the strongest winds in the solar system, reaching 2,100 km/h.''))])]"

text \<open>
  \<open>planet_info(planet_name)\<close>: look the lowercased name up in \<open>planets\<close>, with the empty
  dictionary as the default, and answer with the JSON of what was found.
\<close>

definition planet_info :: "unitable \<Rightarrow> pystr \<Rightarrow> response" where
  "planet_info U planet_name =
     (let planet_data = dict_get planets (lower U planet_name) []
      in jsonify planet_data)"

text \<open>\<open>sun_info()\<close>: the JSON of one dictionary literal.\<close>

definition sun_info :: response where
  "sun_info = jsonify [
     (lit ''name'', JStr (lit ''Sun'')),
     (lit ''type'', JStr (lit ''G-type main-sequence star'')),
     (lit ''diameter'', JStr (lit ''1,392,700 km'')),
     (lit ''mass'', JStr (lit ''1.989 '' @ [0xD7] @ lit '' 10'' @ [0xB3, 0x2070] @ lit '' kg'')),
     (lit ''surface_temperature'', JStr (lit ''5,500'' @ [0xB0] @ lit ''C'')),
     (lit ''core_temperature'', JStr (lit ''15 million'' @ [0xB0] @ lit ''C'')),
     (lit ''age'', JStr (lit ''4.6 billion years'')),
     (lit ''composition'', JStr (lit ''73% Hydrogen, 25% Helium'')),
     (lit ''description'', JStr (lit
       ''The Sun is the star at the center of our Solar System. It provides the energy that sustains life on Earth.''))]"

section \<open>The server over a sequence of requests\<close>

text \<open>
  The three routes of the module. \<open>index\<close> hands the template name to Flask's
  \<open>render_template\<close>, which is taken as a parameter: it gives the page, or raises.
  No handler reads or writes a variable outside its own locals (the module's only global,
  \<open>app\<close>, is the table of routes), so a run of the server over a sequence of requests
  answers each request by its handler.
\<close>

datatype request = GetIndex | GetPlanetInfo pystr | GetSunInfo

datatype 'e reply = Page "'e + pystr" | Api response

definition index :: "(pystr \<Rightarrow> 'e + pystr) \<Rightarrow> 'e + pystr" where
  "index render_template = render_template (lit ''index.html'')"

fun handle :: "unitable \<Rightarrow> (pystr \<Rightarrow> 'e + pystr) \<Rightarrow> request \<Rightarrow> 'e reply" where
  "handle U rt GetIndex = Page (index rt)"
| "handle U rt (GetPlanetInfo planet_name) = Api (planet_info U planet_name)"
| "handle U rt GetSunInfo = Api sun_info"

fun serve :: "unitable \<Rightarrow> (pystr \<Rightarrow> 'e + pystr) \<Rightarrow> request list \<Rightarrow> 'e reply list" where
  "serve U rt [] = []"
| "serve U rt (r # rs) = handle U rt r # serve U rt rs"

section \<open>The lookup service with one table per process\<close>

text \<open>
  The design the spec describes in place of the dictionary built on every call: a table
  set up once when the process starts, held by the process and consulted by every lookup.
  The process is threaded through the lookups; a lookup gives it back as it was.
\<close>

record process =
  planet_table :: "(pystr \<times> fields) list"

definition startup :: process where
  "startup = \<lparr>planet_table = planets\<rparr>"

definition fixed_table_lookup :: "unitable \<Rightarrow> process \<Rightarrow> pystr \<Rightarrow> process \<times> response" where
  "fixed_table_lookup U p identifier =
     (case map_of (planet_table p) (lower U identifier) of
        Some r \<Rightarrow> (p, \<lparr>status = 200, body = r\<rparr>)
      | None \<Rightarrow> (p, \<lparr>status = 200, body = []\<rparr>))"

fun fixed_table_run :: "unitable \<Rightarrow> process \<Rightarrow> pystr list \<Rightarrow> response list" where
  "fixed_table_run U p [] = []"
| "fixed_table_run U p (n # ns) =
     (case fixed_table_lookup U p n of (p', r) \<Rightarrow> r # fixed_table_run U p' ns)"

section \<open>Vocabulary of the properties\<close>

text \<open>
  \<open>case_variant s k\<close>: \<open>s\<close> is \<open>k\<close> with some of its letters in upper case (position by
  position the same code point, or the one 32 below it), for a key \<open>k\<close> of lowercase
  ASCII letters.
\<close>

definition case_variant :: "pystr \<Rightarrow> pystr \<Rightarrow> bool" where
  "case_variant s k = list_all2 (\<lambda>c d. c = d \<or> c + 32 = d) s k"

text \<open>
  An instance of the interpreter's table. It is what \<open>str.lower\<close> does on the code
  points U+0080 to U+00FF (U+00C0 to U+00DE but U+00D7 go 32 up, the others stay), on
  U+0130 (which becomes \<open>i\<close> and U+0307) and on U+212A (the Kelvin sign, which becomes
  \<open>k\<close>: the one code point beyond ASCII that lowers to ASCII). Every other code point it
  leaves as it is; the instances below consult it inside this fragment only.
\<close>

definition U_fragment :: unitable where
  "U_fragment s i =
     (let c = s ! i in
      if (0xC0 \<le> c \<and> c \<le> 0xD6) \<or> (0xD8 \<le> c \<and> c \<le> 0xDE) then [c + 32]
      else if c = 0x130 then [0x69, 0x307]
      else if c = 0x212A then [0x6B]
      else [c])"

section \<open>Literals, lowercasing and the lookup\<close>

lemma lit_eq_iff: "lit a = lit b \<longleftrightarrow> a = b"
  unfolding lit_def by (simp add: inj_on_def)

lemma concat_map_single: "concat (map (\<lambda>x. [g x]) xs) = map g xs"
  by (induction xs) simp_all

lemma lower_ascii:
  assumes "\<forall>c\<in>set s. c < 128"
  shows "lower U s = map ascii_lower s"
proof -
  have h: "map (lower_at U s) [0..<length s] = map (\<lambda>i. [ascii_lower (s ! i)]) [0..<length s]"
    using assms by (simp add: lower_at_def)
  have "lower U s = concat (map (\<lambda>i. [ascii_lower (s ! i)]) [0..<length s])"
    by (simp only: lower_def h)
  also have "\<dots> = map (\<lambda>i. ascii_lower (s ! i)) [0..<length s]"
    by (rule concat_map_single)
  also have "\<dots> = map ascii_lower (map ((!) s) [0..<length s])"
    by simp
  also have "\<dots> = map ascii_lower s"
    by (simp only: map_nth)
  finally show ?thesis .
qed

lemma case_variant_ascii:
  assumes "list_all2 (\<lambda>c d. c = d \<or> c + 32 = d) s k" and "\<forall>d\<in>set k. 97 \<le> d \<and> d \<le> 122"
  shows "(\<forall>c\<in>set s. c < 128) \<and> map ascii_lower s = k"
  using assms by (induction rule: list_all2_induct) (auto simp: ascii_lower_def)

lemma lower_case_variant:
  assumes "case_variant s k" and "\<forall>d\<in>set k. 97 \<le> d \<and> d \<le> 122"
  shows "lower U s = k"
  using case_variant_ascii [OF assms [unfolded case_variant_def]] lower_ascii by metis

lemma planets_keys:
  "map fst planets = [lit ''mercury'', lit ''venus'', lit ''earth'', lit ''mars'',
     lit ''jupiter'', lit ''saturn'', lit ''uranus'', lit ''neptune'']"
  by (simp add: planets_def)

lemma lower_key:
  assumes "k \<in> set (map fst planets)"
  shows "lower U k = k"
proof -
  have "\<forall>c\<in>set k. c < 128" "map ascii_lower k = k"
    using assms unfolding planets_keys by (auto simp: lit_def ascii_lower_def)
  then show ?thesis by (simp add: lower_ascii)
qed

lemma map_of_planets_None:
  "map_of planets k = None \<longleftrightarrow> k \<notin> set (map fst planets)"
  by (simp add: map_of_eq_None_iff)

lemma planet_info_at:
  "planet_info U s = jsonify (dict_get planets (lower U s) [])"
  by (simp add: planet_info_def)

lemma planet_info_unmatched:
  assumes "lower U s \<notin> set (map fst planets)"
  shows "planet_info U s = \<lparr>status = 200, body = []\<rparr>"
proof -
  have "map_of planets (lower U s) = None"
    using assms by (simp add: map_of_eq_None_iff)
  then show ?thesis
    by (simp add: planet_info_def dict_get_def jsonify_def)
qed

lemma lower_lit_examples:
  "lower U (lit ''pluto'') = lit ''pluto''" "lower U [] = []"
  "lower U (lit ''xyz123'') = lit ''xyz123''"
  "lower U (lit ''Mars'') = lit ''mars''"
  "lower U (lit ''terra'') = lit ''terra''"
  "lower U (lit '' earth'') = lit '' earth''"
  "lower U (lit ''earths'') = lit ''earths''"
  by (simp_all add: lower_ascii lit_def ascii_lower_def)

section \<open>Unknown identifiers\<close>

text \<open>
  Claim C1. Whenever the lowercased identifier is none of the eight planet keys,
  \<open>planet_info\<close> answers with status 200 and the empty JSON object; so it does for
  \<open>pluto\<close>, for the empty string and for \<open>xyz123\<close>. The handler is a total function
  with no raising branch: \<open>dict.get\<close> with a default never raises.
\<close>

theorem planet_info_unknown_empty:
  "(\<forall>s. lower U s \<notin> {lit ''mercury'', lit ''venus'', lit ''earth'', lit ''mars'',
        lit ''jupiter'', lit ''saturn'', lit ''uranus'', lit ''neptune''}
      \<longrightarrow> planet_info U s = \<lparr>status = 200, body = []\<rparr>)
   \<and> planet_info U (lit ''pluto'') = \<lparr>status = 200, body = []\<rparr>
   \<and> planet_info U [] = \<lparr>status = 200, body = []\<rparr>
   \<and> planet_info U (lit ''xyz123'') = \<lparr>status = 200, body = []\<rparr>"
proof -
  have "planet_info U (lit ''pluto'') = \<lparr>status = 200, body = []\<rparr>"
    by (rule planet_info_unmatched) (simp add: lower_lit_examples planets_keys lit_eq_iff)
  moreover have "planet_info U [] = \<lparr>status = 200, body = []\<rparr>"
    by (rule planet_info_unmatched) (simp add: lower_lit_examples planets_keys lit_def)
  moreover have "planet_info U (lit ''xyz123'') = \<lparr>status = 200, body = []\<rparr>"
    by (rule planet_info_unmatched) (simp add: lower_lit_examples planets_keys lit_eq_iff)
  ultimately show ?thesis
    using planet_info_unmatched [of U] by (simp add: planets_keys)
qed

text \<open>The claim at the identifier \<open>Pluto\<close>, whose lowercased form is no key.\<close>

theorem planet_info_unknown_empty_witness:
  "lower U_fragment (lit ''Pluto'') \<notin> {lit ''mercury'', lit ''venus'', lit ''earth'', lit ''mars'',
        lit ''jupiter'', lit ''saturn'', lit ''uranus'', lit ''neptune''}
   \<and> planet_info U_fragment (lit ''Pluto'') = \<lparr>status = 200, body = []\<rparr>"
proof -
  have l: "lower U_fragment (lit ''Pluto'') = lit ''pluto''"
    by (simp add: lower_ascii lit_def ascii_lower_def)
  have h: "lower U_fragment (lit ''Pluto'') \<notin> {lit ''mercury'', lit ''venus'', lit ''earth'',
      lit ''mars'', lit ''jupiter'', lit ''saturn'', lit ''uranus'', lit ''neptune''}"
    unfolding l by (simp add: lit_eq_iff)
  from planet_info_unknown_empty [of U_fragment] have
    "lower U_fragment (lit ''Pluto'') \<notin> {lit ''mercury'', lit ''venus'', lit ''earth'',
      lit ''mars'', lit ''jupiter'', lit ''saturn'', lit ''uranus'', lit ''neptune''}
     \<longrightarrow> planet_info U_fragment (lit ''Pluto'') = \<lparr>status = 200, body = []\<rparr>"
    by blast
  with h show ?thesis by blast
qed

section \<open>Known identifiers\<close>

lemma planet_info_matched:
  assumes "lower U s = k" and "map_of planets k = Some r"
  shows "planet_info U s = \<lparr>status = 200, body = r\<rparr>"
  using assms by (simp add: planet_info_def dict_get_def jsonify_def)

lemma key_letters:
  assumes "k \<in> set (map fst planets)"
  shows "\<forall>d\<in>set k. 97 \<le> d \<and> d \<le> 122"
  using assms unfolding planets_keys by (auto simp: lit_def)

lemma planets_name:
  "map_of planets (lit ''mercury'') = Some r \<Longrightarrow> r \<noteq> [] \<and> map_of r (lit ''name'') = Some (JStr (lit ''Mercury''))"
  "map_of planets (lit ''venus'') = Some r \<Longrightarrow> r \<noteq> [] \<and> map_of r (lit ''name'') = Some (JStr (lit ''Venus''))"
  "map_of planets (lit ''earth'') = Some r \<Longrightarrow> r \<noteq> [] \<and> map_of r (lit ''name'') = Some (JStr (lit ''Earth''))"
  "map_of planets (lit ''mars'') = Some r \<Longrightarrow> r \<noteq> [] \<and> map_of r (lit ''name'') = Some (JStr (lit ''Mars''))"
  "map_of planets (lit ''jupiter'') = Some r \<Longrightarrow> r \<noteq> [] \<and> map_of r (lit ''name'') = Some (JStr (lit ''Jupiter''))"
  "map_of planets (lit ''saturn'') = Some r \<Longrightarrow> r \<noteq> [] \<and> map_of r (lit ''name'') = Some (JStr (lit ''Saturn''))"
  "map_of planets (lit ''uranus'') = Some r \<Longrightarrow> r \<noteq> [] \<and> map_of r (lit ''name'') = Some (JStr (lit ''Uranus''))"
  "map_of planets (lit ''neptune'') = Some r \<Longrightarrow> r \<noteq> [] \<and> map_of r (lit ''name'') = Some (JStr (lit ''Neptune''))"
  by (auto simp: planets_def lit_eq_iff)

lemma planets_has_key:
  assumes "k \<in> set (map fst planets)"
  shows "\<exists>r. map_of planets k = Some r"
  using assms by (metis map_of_eq_None_iff not_Some_eq set_map)

text \<open>
  Claim C2. For each of the eight planet keys and every case variant \<open>s\<close> of it,
  \<open>planet_info\<close> answers with status 200 and a non-empty record whose \<open>name\<close> is the
  capitalized name of that planet.
\<close>

theorem planet_info_case_variant_name:
  assumes "(k, n) \<in> set [(''mercury'', ''Mercury''), (''venus'', ''Venus''),
      (''earth'', ''Earth''), (''mars'', ''Mars''), (''jupiter'', ''Jupiter''),
      (''saturn'', ''Saturn''), (''uranus'', ''Uranus''), (''neptune'', ''Neptune'')]"
    and "case_variant s (lit k)"
  shows "status (planet_info U s) = 200 \<and> body (planet_info U s) \<noteq> [] \<and>
    map_of (body (planet_info U s)) (lit ''name'') = Some (JStr (lit n))"
proof -
  have key: "lit k \<in> set (map fst planets)"
    using assms(1) unfolding planets_keys by auto
  have low: "lower U s = lit k"
    using assms(2) key_letters [OF key] by (rule lower_case_variant)
  obtain r where r: "map_of planets (lit k) = Some r"
    using planets_has_key [OF key] by blast
  have resp: "planet_info U s = \<lparr>status = 200, body = r\<rparr>"
    using low r by (rule planet_info_matched)
  have "r \<noteq> [] \<and> map_of r (lit ''name'') = Some (JStr (lit n))"
    using assms(1) r by (auto dest: planets_name)
  then show ?thesis by (simp add: resp)
qed

text \<open>The claim at \<open>Earth\<close>, \<open>EARTH\<close> and \<open>earth\<close>.\<close>

theorem planet_info_case_variant_name_witness:
  "case_variant (lit ''Earth'') (lit ''earth'') \<and>
   map_of (body (planet_info U_fragment (lit ''Earth''))) (lit ''name'') = Some (JStr (lit ''Earth'')) \<and>
   case_variant (lit ''EARTH'') (lit ''earth'') \<and>
   map_of (body (planet_info U_fragment (lit ''EARTH''))) (lit ''name'') = Some (JStr (lit ''Earth'')) \<and>
   case_variant (lit ''earth'') (lit ''earth'') \<and>
   map_of (body (planet_info U_fragment (lit ''earth''))) (lit ''name'') = Some (JStr (lit ''Earth''))"
proof -
  have m: "(''earth'', ''Earth'') \<in> set [(''mercury'', ''Mercury''), (''venus'', ''Venus''),
      (''earth'', ''Earth''), (''mars'', ''Mars''), (''jupiter'', ''Jupiter''),
      (''saturn'', ''Saturn''), (''uranus'', ''Uranus''), (''neptune'', ''Neptune'')]"
    by simp
  have v1: "case_variant (lit ''Earth'') (lit ''earth'')"
    and v2: "case_variant (lit ''EARTH'') (lit ''earth'')"
    and v3: "case_variant (lit ''earth'') (lit ''earth'')"
    by (simp_all add: case_variant_def lit_def)
  show ?thesis
    using planet_info_case_variant_name [OF m v1, of U_fragment]
      planet_info_case_variant_name [OF m v2, of U_fragment]
      planet_info_case_variant_name [OF m v3, of U_fragment] v1 v2 v3
    by simp
qed

text \<open>
  Claim C3. \<open>planet_info\<close> at \<open>Mars\<close> answers with exactly the eight fields of the Mars
  record, in the values of the source, and nothing else.
\<close>

theorem planet_info_Mars:
  "planet_info U (lit ''Mars'') = \<lparr>status = 200, body = [
      (lit ''name'', JStr (lit ''Mars'')),
      (lit ''diameter'', JStr (lit ''6,779 km'')),
      (lit ''distance_from_sun'', JStr (lit ''227.9 million km'')),
      (lit ''orbital_period'', JStr (lit ''687 Earth days'')),
      (lit ''day_length'', JStr (lit ''24.6 hours'')),
      (lit ''temperature'', JStr (lit ''-65'' @ [0xB0] @ lit ''C (average)'')),
      (lit ''moons'', JInt 2),
      (lit ''description'', JStr (lit
        ''Mars is known as the Red Planet due to iron oxide on its surface.''))]\<rparr>"
  by (rule planet_info_matched [OF lower_lit_examples(4)])
    (simp add: planets_def lit_eq_iff)

section \<open>The Sun\<close>

text \<open>
  Claim C4. \<open>sun_info\<close> takes no argument and has no failing branch; its answer is status
  200 with exactly the nine fields of the Sun record.
\<close>

theorem sun_info_record:
  "sun_info = \<lparr>status = 200, body = [
     (lit ''name'', JStr (lit ''Sun'')),
     (lit ''type'', JStr (lit ''G-type main-sequence star'')),
     (lit ''diameter'', JStr (lit ''1,392,700 km'')),
     (lit ''mass'', JStr (lit ''1.989 '' @ [0xD7] @ lit '' 10'' @ [0xB3, 0x2070] @ lit '' kg'')),
     (lit ''surface_temperature'', JStr (lit ''5,500'' @ [0xB0] @ lit ''C'')),
     (lit ''core_temperature'', JStr (lit ''15 million'' @ [0xB0] @ lit ''C'')),
     (lit ''age'', JStr (lit ''4.6 billion years'')),
     (lit ''composition'', JStr (lit ''73% Hydrogen, 25% Helium'')),
     (lit ''description'', JStr (lit
       ''The Sun is the star at the center of our Solar System. It provides the energy that sustains life on Earth.''))]\<rparr>"
  by (simp only: sun_info_def jsonify_def)

text \<open>
  Claim C7, as stated, fails: the record of \<open>sun_info\<close> does contain a \<open>diameter\<close>
  field, with the value \<open>1,392,700 km\<close>.
\<close>

theorem sun_info_has_diameter:
  "lit ''diameter'' \<in> dom (map_of (body sun_info))
   \<and> map_of (body sun_info) (lit ''diameter'') = Some (JStr (lit ''1,392,700 km''))"
  by (simp add: sun_info_def jsonify_def lit_eq_iff dom_def)

text \<open>
  Claim C7, amended. The record of \<open>sun_info\<close> has exactly the nine fields \<open>name\<close>,
  \<open>type\<close>, \<open>diameter\<close>, \<open>mass\<close>, \<open>surface_temperature\<close>, \<open>core_temperature\<close>,
  \<open>age\<close>, \<open>composition\<close>, \<open>description\<close>; it has no \<open>distance_from_sun\<close>,
  \<open>orbital_period\<close>, \<open>day_length\<close>, \<open>temperature\<close> or \<open>moons\<close> field.
\<close>

theorem sun_info_fields:
  "map fst (body sun_info) = [lit ''name'', lit ''type'', lit ''diameter'', lit ''mass'',
      lit ''surface_temperature'', lit ''core_temperature'', lit ''age'',
      lit ''composition'', lit ''description'']
   \<and> lit ''distance_from_sun'' \<notin> dom (map_of (body sun_info))
   \<and> lit ''orbital_period'' \<notin> dom (map_of (body sun_info))
   \<and> lit ''day_length'' \<notin> dom (map_of (body sun_info))
   \<and> lit ''temperature'' \<notin> dom (map_of (body sun_info))
   \<and> lit ''moons'' \<notin> dom (map_of (body sun_info))"
  by (simp add: sun_info_def jsonify_def lit_eq_iff dom_def)

section \<open>The planet table\<close>

lemma serve_nth:
  "i < length reqs \<Longrightarrow> serve U rt reqs ! i = handle U rt (reqs ! i)"
proof (induction reqs arbitrary: i)
  case Nil
  then show ?case by simp
next
  case (Cons r rs)
  then show ?case by (cases i) simp_all
qed

text \<open>
  Claim C5. The dictionary \<open>planets\<close> has exactly eight entries, its keys are distinct
  and are exactly \<open>mercury\<close>, \<open>venus\<close>, \<open>earth\<close>, \<open>mars\<close>, \<open>jupiter\<close>,
  \<open>saturn\<close>, \<open>uranus\<close>, \<open>neptune\<close>. Every call of \<open>planet_info\<close> looks its
  argument up in this one dictionary, whatever the argument and wherever the request
  stands in a run of the server.
\<close>

theorem planets_eight_keys:
  "length planets = 8
   \<and> distinct (map fst planets)
   \<and> dom (map_of planets) = {lit ''mercury'', lit ''venus'', lit ''earth'', lit ''mars'',
        lit ''jupiter'', lit ''saturn'', lit ''uranus'', lit ''neptune''}
   \<and> card (dom (map_of planets)) = 8
   \<and> planet_info U s = jsonify (dict_get planets (lower U s) [])
   \<and> (i < length reqs \<and> reqs ! i = GetPlanetInfo n
        \<longrightarrow> serve U rt reqs ! i = Api (jsonify (dict_get planets (lower U n) [])))"
proof -
  have len: "length planets = 8"
    using arg_cong [OF planets_keys, of length] by simp
  have dist: "distinct (map fst planets)"
    unfolding planets_keys by (simp add: lit_eq_iff)
  have dm: "dom (map_of planets) = set (map fst planets)"
    by (simp add: dom_map_of_conv_image_fst)
  have card: "card (dom (map_of planets)) = 8"
    unfolding dm using distinct_card [OF dist] len by simp
  have keys: "dom (map_of planets) = {lit ''mercury'', lit ''venus'', lit ''earth'',
      lit ''mars'', lit ''jupiter'', lit ''saturn'', lit ''uranus'', lit ''neptune''}"
    unfolding dm planets_keys by simp
  have run: "i < length reqs \<and> reqs ! i = GetPlanetInfo n
      \<longrightarrow> serve U rt reqs ! i = Api (jsonify (dict_get planets (lower U n) []))"
    by (simp add: serve_nth planet_info_at)
  show ?thesis
    using len dist keys card planet_info_at [of U s] run by blast
qed

text \<open>The claim in a run of three requests, the second one for \<open>Venus\<close>.\<close>

theorem planets_eight_keys_witness:
  "(1::nat) < length [GetSunInfo, GetPlanetInfo (lit ''Venus''), GetIndex]
   \<and> [GetSunInfo, GetPlanetInfo (lit ''Venus''), GetIndex] ! 1 = GetPlanetInfo (lit ''Venus'')
   \<and> serve U_fragment (\<lambda>t. (Inr t :: unit + pystr)) [GetSunInfo, GetPlanetInfo (lit ''Venus''), GetIndex] ! 1
       = Api (jsonify (dict_get planets (lit ''venus'') []))
   \<and> card (dom (map_of planets)) = 8"
proof -
  have l: "lower U_fragment (lit ''Venus'') = lit ''venus''"
    by (simp add: lower_ascii lit_def ascii_lower_def)
  have a: "(1::nat) < length [GetSunInfo, GetPlanetInfo (lit ''Venus''), GetIndex]
      \<and> [GetSunInfo, GetPlanetInfo (lit ''Venus''), GetIndex] ! 1 = GetPlanetInfo (lit ''Venus'')"
    by simp
  note t = planets_eight_keys [of U_fragment "[]" 1 "[GetSunInfo, GetPlanetInfo (lit ''Venus''), GetIndex]"
        "lit ''Venus''" "\<lambda>t. (Inr t :: unit + pystr)"]
  from t have c: "card (dom (map_of planets)) = 8"
    by blast
  from t a have "serve U_fragment (\<lambda>t. (Inr t :: unit + pystr))
        [GetSunInfo, GetPlanetInfo (lit ''Venus''), GetIndex] ! 1
      = Api (jsonify (dict_get planets (lower U_fragment (lit ''Venus'')) []))"
    by blast
  then show ?thesis
    using a c unfolding l by blast
qed

section \<open>The fields of a planet's record\<close>

lemma planets_shape:
  assumes "map_of planets k = Some r"
  shows "\<exists>nm di ds op dl te mo de.
    r = [(lit ''name'', JStr nm), (lit ''diameter'', JStr di),
         (lit ''distance_from_sun'', JStr ds), (lit ''orbital_period'', JStr op),
         (lit ''day_length'', JStr dl), (lit ''temperature'', JStr te),
         (lit ''moons'', JInt mo), (lit ''description'', JStr de)] \<and> 0 \<le> mo"
  using map_of_SomeD [OF assms] by (auto simp: planets_def)

text \<open>
  Claim C8. For an identifier whose lowercased form is one of the eight keys, the record
  answered has the eight fields \<open>name\<close>, \<open>diameter\<close>, \<open>distance_from_sun\<close>,
  \<open>orbital_period\<close>, \<open>day_length\<close>, \<open>temperature\<close>, \<open>moons\<close>, \<open>description\<close>,
  where \<open>moons\<close> is an integer that is not negative and every other field is text.
\<close>

theorem planet_info_field_types:
  assumes "lower U s \<in> {lit ''mercury'', lit ''venus'', lit ''earth'', lit ''mars'',
           lit ''jupiter'', lit ''saturn'', lit ''uranus'', lit ''neptune''}"
  shows "\<exists>nm di ds op dl te mo de.
    body (planet_info U s) =
        [(lit ''name'', JStr nm), (lit ''diameter'', JStr di),
         (lit ''distance_from_sun'', JStr ds), (lit ''orbital_period'', JStr op),
         (lit ''day_length'', JStr dl), (lit ''temperature'', JStr te),
         (lit ''moons'', JInt mo), (lit ''description'', JStr de)] \<and> 0 \<le> mo"
proof -
  have "lower U s \<in> set (map fst planets)"
    using assms by (simp add: planets_keys)
  then obtain r where r: "map_of planets (lower U s) = Some r"
    using planets_has_key by blast
  have "planet_info U s = \<lparr>status = 200, body = r\<rparr>"
    using refl r by (rule planet_info_matched)
  then show ?thesis
    using planets_shape [OF r] by simp
qed

text \<open>The claim at \<open>JUPITER\<close>.\<close>

theorem planet_info_field_types_witness:
  "lower U_fragment (lit ''JUPITER'') \<in> {lit ''mercury'', lit ''venus'', lit ''earth'', lit ''mars'',
           lit ''jupiter'', lit ''saturn'', lit ''uranus'', lit ''neptune''}
   \<and> (\<exists>nm di ds op dl te mo de. body (planet_info U_fragment (lit ''JUPITER'')) =
        [(lit ''name'', JStr nm), (lit ''diameter'', JStr di),
         (lit ''distance_from_sun'', JStr ds), (lit ''orbital_period'', JStr op),
         (lit ''day_length'', JStr dl), (lit ''temperature'', JStr te),
         (lit ''moons'', JInt mo), (lit ''description'', JStr de)] \<and> 0 \<le> mo)"
proof -
  have l: "lower U_fragment (lit ''JUPITER'') = lit ''jupiter''"
    by (simp add: lower_ascii lit_def ascii_lower_def)
  have h: "lower U_fragment (lit ''JUPITER'') \<in> {lit ''mercury'', lit ''venus'', lit ''earth'',
      lit ''mars'', lit ''jupiter'', lit ''saturn'', lit ''uranus'', lit ''neptune''}"
    unfolding l by simp
  show ?thesis
    using planet_info_field_types [OF h] h by blast
qed

section \<open>Case folding and exact matching\<close>

lemma ascii_lower_idem: "ascii_lower (ascii_lower c) = ascii_lower c"
  by (simp add: ascii_lower_def)

lemma ascii_lower_ascii: "c < 128 \<Longrightarrow> ascii_lower c < 128"
  by (simp add: ascii_lower_def)

lemma lower_idem_ascii:
  assumes "\<forall>c\<in>set s. c < 128"
  shows "lower U (lower U s) = lower U s"
proof -
  have "\<forall>c\<in>set (map ascii_lower s). c < 128"
    using assms by (simp add: ascii_lower_ascii)
  then have "lower U (map ascii_lower s) = map ascii_lower (map ascii_lower s)"
    by (rule lower_ascii)
  then show ?thesis
    by (simp add: lower_ascii [OF assms] ascii_lower_idem)
qed

lemma planets_nonempty:
  assumes "map_of planets k = Some r"
  shows "r \<noteq> []"
  using map_of_SomeD [OF assms] by (auto simp: planets_def)

lemma planet_info_body_nonempty:
  "body (planet_info U s) \<noteq> [] \<longleftrightarrow> lower U s \<in> set (map fst planets)"
proof (cases "map_of planets (lower U s)")
  case None
  then have "lower U s \<notin> set (map fst planets)"
    by (simp add: map_of_eq_None_iff)
  then show ?thesis
    by (simp add: planet_info_unmatched)
next
  case (Some r)
  then have "lower U s \<in> set (map fst planets)"
    by (metis map_of_eq_None_iff option.distinct(1) set_map)
  then show ?thesis
    using Some planets_nonempty [OF Some]
    by (simp add: planet_info_def dict_get_def jsonify_def)
qed

lemma set_lower: "set (lower U s) = (\<Union>i\<in>{0..<length s}. set (lower_at U s i))"
  by (simp add: lower_def)

lemma lower_keeps_mark:
  assumes tab: "\<forall>t i. i < length t \<and> 128 \<le> t ! i \<longrightarrow> (\<exists>c\<in>set (U t i). 128 \<le> c \<or> c = 107)"
    and "\<exists>c\<in>set s. 128 \<le> c \<or> c = 107"
  shows "\<exists>c\<in>set (lower U s). 128 \<le> c \<or> c = 107"
proof -
  from assms(2) obtain i where i: "i < length s" and c: "128 \<le> s ! i \<or> s ! i = 107"
    by (auto simp: in_set_conv_nth)
  have "\<exists>c\<in>set (lower_at U s i). 128 \<le> c \<or> c = 107"
  proof (cases "128 \<le> s ! i")
    case True
    then have "\<exists>c\<in>set (U s i). 128 \<le> c \<or> c = 107"
      using tab i by blast
    then show ?thesis
      using True by (simp add: lower_at_def)
  next
    case False
    then have "s ! i = 107" using c by simp
    then show ?thesis
      by (simp add: lower_at_def ascii_lower_def)
  qed
  then show ?thesis
    using i unfolding set_lower by auto
qed

lemma marked_no_key:
  assumes "\<exists>c\<in>set t. 128 \<le> c \<or> c = 107"
  shows "t \<notin> set (map fst planets)"
proof
  assume "t \<in> set (map fst planets)"
  then have "\<forall>c\<in>set t. 97 \<le> c \<and> c \<le> 122 \<and> c \<noteq> 107"
    unfolding planets_keys by (auto simp: lit_def)
  with assms show False by force
qed

lemma planet_info_lower_again:
  assumes tab: "\<forall>t i. i < length t \<and> 128 \<le> t ! i \<longrightarrow> (\<exists>c\<in>set (U t i). 128 \<le> c \<or> c = 107)"
  shows "planet_info U s = planet_info U (lower U s)"
proof (cases "\<forall>c\<in>set s. c < 128")
  case True
  then have "lower U (lower U s) = lower U s"
    by (rule lower_idem_ascii)
  then show ?thesis
    by (simp add: planet_info_def)
next
  case False
  then obtain c where "c \<in> set s" and "128 \<le> c"
    by (auto simp: not_less)
  then have "\<exists>c\<in>set s. 128 \<le> c \<or> c = 107"
    by blast
  then have m1: "\<exists>c\<in>set (lower U s). 128 \<le> c \<or> c = 107"
    by (rule lower_keeps_mark [OF tab])
  then have m2: "\<exists>c\<in>set (lower U (lower U s)). 128 \<le> c \<or> c = 107"
    by (rule lower_keeps_mark [OF tab])
  have "planet_info U s = \<lparr>status = 200, body = []\<rparr>"
    using marked_no_key [OF m1] by (rule planet_info_unmatched)
  moreover have "planet_info U (lower U s) = \<lparr>status = 200, body = []\<rparr>"
    using marked_no_key [OF m2] by (rule planet_info_unmatched)
  ultimately show ?thesis by simp
qed

lemma U_fragment_table:
  assumes "128 \<le> t ! i"
  shows "\<exists>c\<in>set (U_fragment t i). 128 \<le> c \<or> c = 107"
  using assms by (simp add: U_fragment_def Let_def)

text \<open>
  Claim C6. \<open>planet_info\<close> at \<open>s\<close> and at the lowercased \<open>s\<close> answer the same, for
  every \<open>s\<close>; the answer is non-empty exactly when the lowercased \<open>s\<close> is, code point
  for code point, one of the eight keys; \<open>terra\<close>, \<open>earth\<close> after a blank and
  \<open>earths\<close> match nothing. Only the first part leans on the interpreter's table, and
  on one fact of it: a code point beyond ASCII lowers to a chunk that holds a code point
  beyond ASCII or the letter \<open>k\<close> (U+212A is the one that lowers to ASCII, and to
  \<open>k\<close>, which no key has). For an ASCII \<open>s\<close> that part holds with any table.
\<close>

theorem planet_info_casefold_exact:
  "((\<forall>t i. i < length t \<and> 128 \<le> t ! i \<longrightarrow> (\<exists>c\<in>set (U t i). 128 \<le> c \<or> c = 107))
      \<longrightarrow> planet_info U s = planet_info U (lower U s))
    \<and> ((\<forall>c\<in>set s. c < 128) \<longrightarrow> planet_info U s = planet_info U (lower U s))
    \<and> (body (planet_info U s) \<noteq> [] \<longleftrightarrow>
         lower U s \<in> {lit ''mercury'', lit ''venus'', lit ''earth'', lit ''mars'',
           lit ''jupiter'', lit ''saturn'', lit ''uranus'', lit ''neptune''})
    \<and> body (planet_info U (lit ''terra'')) = []
    \<and> body (planet_info U (lit '' earth'')) = []
    \<and> body (planet_info U (lit ''earths'')) = []"
proof -
  have "(\<forall>t i. i < length t \<and> 128 \<le> t ! i \<longrightarrow> (\<exists>c\<in>set (U t i). 128 \<le> c \<or> c = 107))
      \<longrightarrow> planet_info U s = planet_info U (lower U s)"
    by (rule impI) (rule planet_info_lower_again)
  moreover have "(\<forall>c\<in>set s. c < 128) \<longrightarrow> planet_info U s = planet_info U (lower U s)"
    using lower_idem_ascii [of s U] by (simp add: planet_info_def)
  moreover have "body (planet_info U s) \<noteq> [] \<longleftrightarrow>
      lower U s \<in> {lit ''mercury'', lit ''venus'', lit ''earth'', lit ''mars'',
        lit ''jupiter'', lit ''saturn'', lit ''uranus'', lit ''neptune''}"
    using planet_info_body_nonempty [of U s] by (simp add: planets_keys)
  moreover have "body (planet_info U (lit ''terra'')) = []"
    using planet_info_body_nonempty [of U "lit ''terra''"]
    by (simp add: planets_keys lower_lit_examples lit_eq_iff)
  moreover have "body (planet_info U (lit '' earth'')) = []"
    using planet_info_body_nonempty [of U "lit '' earth''"]
    by (simp add: planets_keys lower_lit_examples lit_eq_iff)
  moreover have "body (planet_info U (lit ''earths'')) = []"
    using planet_info_body_nonempty [of U "lit ''earths''"]
    by (simp add: planets_keys lower_lit_examples lit_eq_iff)
  ultimately show ?thesis by blast
qed

text \<open>
  The claim with the table instance, which has the fact asked of the table: at U+00C9
  before \<open>ARTH\<close> (lowered to U+00E9 before \<open>arth\<close>), at \<open>Mar\<close> before the Kelvin
  sign (lowered to \<open>mark\<close>) and at the ASCII identifier \<open>EaRtH\<close>.
\<close>

theorem planet_info_casefold_exact_witness:
  "lower U_fragment ([0xC9] @ lit ''ARTH'') = [0xE9] @ lit ''arth''
   \<and> planet_info U_fragment ([0xC9] @ lit ''ARTH'') = planet_info U_fragment ([0xE9] @ lit ''arth'')
   \<and> body (planet_info U_fragment ([0xC9] @ lit ''ARTH'')) = []
   \<and> lower U_fragment (lit ''Mar'' @ [0x212A]) = lit ''mark''
   \<and> planet_info U_fragment (lit ''Mar'' @ [0x212A]) = planet_info U_fragment (lit ''mark'')
   \<and> body (planet_info U_fragment (lit ''Mar'' @ [0x212A])) = []
   \<and> list_all (\<lambda>c. c < 128) (lit ''EaRtH'')
   \<and> lower U_fragment (lit ''EaRtH'') = lit ''earth''
   \<and> planet_info U_fragment (lit ''EaRtH'') = planet_info U_fragment (lit ''earth'')
   \<and> body (planet_info U_fragment (lit ''EaRtH'')) \<noteq> []"
proof -
  have tab: "\<forall>t i. i < length t \<and> 128 \<le> t ! i
      \<longrightarrow> (\<exists>c\<in>set (U_fragment t i). 128 \<le> c \<or> c = 107)"
    using U_fragment_table by blast
  have l1: "lower U_fragment ([0xC9] @ lit ''ARTH'') = [0xE9] @ lit ''arth''"
    by (simp add: lower_def lower_at_def U_fragment_def ascii_lower_def lit_def)
  have l2: "lower U_fragment (lit ''Mar'' @ [0x212A]) = lit ''mark''"
    by (simp add: lower_def lower_at_def U_fragment_def ascii_lower_def lit_def)
  have a: "\<forall>c\<in>set (lit ''EaRtH''). c < 128"
    by (simp add: lit_def)
  have l3: "lower U_fragment (lit ''EaRtH'') = lit ''earth''"
    by (simp add: lower_ascii lit_def ascii_lower_def)
  have n1: "[0xE9] @ lit ''arth'' \<notin> {lit ''mercury'', lit ''venus'', lit ''earth'', lit ''mars'',
           lit ''jupiter'', lit ''saturn'', lit ''uranus'', lit ''neptune''}"
    by (simp add: lit_def)
  have n2: "lit ''mark'' \<notin> {lit ''mercury'', lit ''venus'', lit ''earth'', lit ''mars'',
           lit ''jupiter'', lit ''saturn'', lit ''uranus'', lit ''neptune''}"
    by (simp add: lit_eq_iff)
  have k: "lit ''earth'' \<in> {lit ''mercury'', lit ''venus'', lit ''earth'', lit ''mars'',
           lit ''jupiter'', lit ''saturn'', lit ''uranus'', lit ''neptune''}"
    by simp
  have "planet_info U_fragment ([0xC9] @ lit ''ARTH'') = planet_info U_fragment ([0xE9] @ lit ''arth'')
      \<and> body (planet_info U_fragment ([0xC9] @ lit ''ARTH'')) = []"
    using planet_info_casefold_exact [of U_fragment "[0xC9] @ lit ''ARTH''"] tab n1
    unfolding l1 by blast
  moreover have "planet_info U_fragment (lit ''Mar'' @ [0x212A]) = planet_info U_fragment (lit ''mark'')
      \<and> body (planet_info U_fragment (lit ''Mar'' @ [0x212A])) = []"
    using planet_info_casefold_exact [of U_fragment "lit ''Mar'' @ [0x212A]"] tab n2
    unfolding l2 by blast
  moreover have "planet_info U_fragment (lit ''EaRtH'') = planet_info U_fragment (lit ''earth'')
      \<and> body (planet_info U_fragment (lit ''EaRtH'')) \<noteq> []"
    using planet_info_casefold_exact [of U_fragment "lit ''EaRtH''"] a k
    unfolding l3 by blast
  moreover have "list_all (\<lambda>c. c < 128) (lit ''EaRtH'')"
    using a by (simp add: list_all_iff)
  ultimately show ?thesis
    using l1 l2 l3 by blast
qed

section \<open>Runs of the server\<close>

text \<open>
  Claim C9. Any two \<open>sun_info\<close> requests, anywhere in any two runs of the server and
  among any other requests, are answered alike: with the fixed Sun record.
\<close>

theorem sun_info_deterministic:
  assumes "i < length reqs" and "reqs ! i = GetSunInfo"
    and "j < length reqs'" and "reqs' ! j = GetSunInfo"
  shows "serve U rt reqs ! i = serve U' rt' reqs' ! j \<and> serve U rt reqs ! i = Api sun_info"
  using assms by (simp add: serve_nth)

text \<open>The claim at the first and the last request of a run of four.\<close>

theorem sun_info_deterministic_witness:
  "(0::nat) < length [GetSunInfo, GetPlanetInfo (lit ''mars''), GetIndex, GetSunInfo]
   \<and> [GetSunInfo, GetPlanetInfo (lit ''mars''), GetIndex, GetSunInfo] ! 0 = GetSunInfo
   \<and> (3::nat) < length [GetSunInfo, GetPlanetInfo (lit ''mars''), GetIndex, GetSunInfo]
   \<and> [GetSunInfo, GetPlanetInfo (lit ''mars''), GetIndex, GetSunInfo] ! 3 = GetSunInfo
   \<and> serve U_fragment (\<lambda>t. (Inr t :: unit + pystr))
        [GetSunInfo, GetPlanetInfo (lit ''mars''), GetIndex, GetSunInfo] ! 0
     = serve U_fragment (\<lambda>t. (Inr t :: unit + pystr))
        [GetSunInfo, GetPlanetInfo (lit ''mars''), GetIndex, GetSunInfo] ! 3"
proof -
  have a: "(0::nat) < length [GetSunInfo, GetPlanetInfo (lit ''mars''), GetIndex, GetSunInfo]"
    and b: "[GetSunInfo, GetPlanetInfo (lit ''mars''), GetIndex, GetSunInfo] ! 0 = GetSunInfo"
    and c: "(3::nat) < length [GetSunInfo, GetPlanetInfo (lit ''mars''), GetIndex, GetSunInfo]"
    and d: "[GetSunInfo, GetPlanetInfo (lit ''mars''), GetIndex, GetSunInfo] ! 3 = GetSunInfo"
    by simp_all
  from sun_info_deterministic [OF a b c d, of U_fragment "\<lambda>t. (Inr t :: unit + pystr)" U_fragment "\<lambda>t. (Inr t :: unit + pystr)"]
  show ?thesis using a b c d by blast
qed

section \<open>One table per process against one dictionary per call\<close>

lemma fixed_table_lookup_startup:
  "fixed_table_lookup U startup s = (startup, planet_info U s)"
  by (simp add: fixed_table_lookup_def startup_def planet_info_def dict_get_def jsonify_def
      split: option.split)

text \<open>
  Claim C10. The lookup in a table set up once at startup answers every identifier as
  \<open>planet_info\<close> does with the dictionary it builds on each call, and leaves the process
  as it was; so a run of lookups against the one table gives the answers of \<open>planet_info\<close>.
\<close>

theorem planet_info_refines_fixed_table:
  "snd (fixed_table_lookup U startup s) = planet_info U s
   \<and> fst (fixed_table_lookup U startup s) = startup
   \<and> fixed_table_run U startup ns = map (planet_info U) ns"
proof -
  have "fixed_table_run U startup ns = map (planet_info U) ns"
    by (induction ns) (simp_all add: fixed_table_lookup_startup)
  then show ?thesis
    by (simp add: fixed_table_lookup_startup)
qed

end
